theory Spec2Isabelle
  imports Complex_Main
begin

section \<open>Python values used by the frame callback\<close>

text \<open>
  The embedding follows \<^verbatim>\<open>streamlit_app.py\<close>. Python floats are modelled by the
  rational numbers they denote, and a float literal by the decimal it is written as
  (\<^verbatim>\<open>0.25\<close> is \<open>1/4\<close>); \<^verbatim>\<open>conf*100\<close> is the exact product (it is exact
  in double precision for the single-precision confidences the detector returns).
  NaN, infinities and the negative zero have no counterpart here.
\<close>

datatype error = ImportError | LoadError | PredictError | IndexError | AttributeError

text \<open>\<^verbatim>\<open>int(x)\<close> and \<^verbatim>\<open>astype(int)\<close>: truncation towards zero.\<close>

definition trunc :: "rat \<Rightarrow> int" where
  "trunc q = (if 0 \<le> q then \<lfloor>q\<rfloor> else \<lceil>q\<rceil>)"

definition digit_char :: "nat \<Rightarrow> char" where
  "digit_char d = ''0123456789'' ! d"

function str_nat :: "nat \<Rightarrow> string" where
  "str_nat n = (if n < 10 then [digit_char n] else str_nat (n div 10) @ [digit_char (n mod 10)])"
  by pat_completeness auto
termination
  by (relation "measure id") auto

declare str_nat.simps [simp del]

text \<open>\<^verbatim>\<open>str(i)\<close> for a Python int.\<close>

definition str_int :: "int \<Rightarrow> string" where
  "str_int i = (if i < 0 then ''-'' @ str_nat (nat (- i)) else str_nat (nat i))"

text \<open>
  The format specification \<^verbatim>\<open>.0f\<close>: the value is rounded to an integer, a tie
  going to the even neighbour, and a negative value keeps its sign even when it rounds
  to zero (\<^verbatim>\<open>f"{-0.4:.0f}"\<close> is \<^verbatim>\<open>-0\<close>).
\<close>

definition round_half_even :: "rat \<Rightarrow> int" where
  "round_half_even x =
     (let f = \<lfloor>x\<rfloor>; d = x - of_int f in
      if d < 1 / 2 then f
      else if 1 / 2 < d then f + 1
      else if even f then f else f + 1)"

definition format_0f :: "rat \<Rightarrow> string" where
  "format_0f x = (if x < 0 then ''-'' else '''') @ str_nat (nat \<bar>round_half_even x\<bar>)"

text \<open>
  Python list indexing \<^verbatim>\<open>xs[i]\<close>: a negative index counts from the end, an index
  out of range raises \<^verbatim>\<open>IndexError\<close>.
\<close>

definition py_getitem :: "'a list \<Rightarrow> int \<Rightarrow> error + 'a" where
  "py_getitem xs i =
     (if 0 \<le> i \<and> i < int (length xs) then Inr (xs ! nat i)
      else if i < 0 \<and> - int (length xs) \<le> i then Inr (xs ! nat (int (length xs) + i))
      else Inl IndexError)"

section \<open>Detection results and the label map\<close>

text \<open>
  One element of \<^verbatim>\<open>res.boxes\<close>: \<open>xyxy\<close> is the row \<^verbatim>\<open>box.xyxy[0]\<close>,
  \<open>conf\<close> is \<^verbatim>\<open>box.conf[0]\<close> and \<open>cls\<close> is \<^verbatim>\<open>box.cls[0]\<close>, with
  \<open>None\<close> where the attribute is \<^verbatim>\<open>None\<close>.
\<close>

record box =
  xyxy :: "rat \<times> rat \<times> rat \<times> rat"
  conf :: "rat option"
  cls :: "rat option"

record results =
  boxes :: "box list option"

text \<open>
  \<^verbatim>\<open>self.names\<close>: a dict, a list or tuple, or anything else (\<^verbatim>\<open>None\<close> before
  the model is loaded).
\<close>

datatype label_map = NamesDict "int \<rightharpoonup> string" | NamesSeq "string list" | NamesOther

text \<open>The local variables of one loop iteration, lines 82 to 84.\<close>

record detection =
  det_x1 :: int
  det_y1 :: int
  det_x2 :: int
  det_y2 :: int
  det_conf :: rat
  det_cls_id :: int

definition detection_of :: "box \<Rightarrow> detection" where
  "detection_of b =
     (case xyxy b of (a1, b1, a2, b2) \<Rightarrow>
        \<lparr>det_x1 = trunc a1, det_y1 = trunc b1, det_x2 = trunc a2, det_y2 = trunc b2,
         det_conf = (case conf b of Some c \<Rightarrow> c | None \<Rightarrow> 0),
         det_cls_id = (case cls b of Some k \<Rightarrow> trunc k | None \<Rightarrow> - 1)\<rparr>)"

text \<open>Lines 85 to 87.\<close>

definition lookup_label :: "label_map \<Rightarrow> int \<Rightarrow> error + string" where
  "lookup_label nms cls_id =
     (case nms of
        NamesDict m \<Rightarrow> Inr (case m cls_id of Some v \<Rightarrow> v | None \<Rightarrow> str_int cls_id)
      | NamesSeq xs \<Rightarrow>
          if 0 \<le> cls_id \<and> cls_id < int (length xs) then py_getitem xs cls_id
          else Inr (str_int cls_id)
      | NamesOther \<Rightarrow> Inr (str_int cls_id))"

section \<open>Drawing\<close>

text \<open>
  The two OpenCV calls of the loop body, as values: the arguments of
  \<^verbatim>\<open>cv2.rectangle(img, pt1, pt2, color, thickness)\<close> and of
  \<^verbatim>\<open>cv2.putText(img, text, org, fontFace, fontScale, color, thickness, lineType)\<close>.
\<close>

type_synonym color = "nat \<times> nat \<times> nat"

datatype font = FONT_HERSHEY_SIMPLEX

datatype line_type = LINE_AA

datatype draw_call =
    rectangle "int \<times> int" "int \<times> int" color int
  | putText string "int \<times> int" font rat color int line_type

text \<open>Line 92.\<close>

definition caption :: "string \<Rightarrow> rat \<Rightarrow> string" where
  "caption label c = label @ '' '' @ format_0f (c * 100) @ ''%''"

text \<open>Lines 89 to 102 for one detection whose label is known.\<close>

definition draw_detection :: "string \<Rightarrow> detection \<Rightarrow> draw_call list" where
  "draw_detection label d =
     (let color = (199, 132, 2) in
      [rectangle (det_x1 d, det_y1 d) (det_x2 d, det_y2 d) color 2,
       putText (caption label (det_conf d)) (det_x1 d, max 0 (det_y1 d - 8))
         FONT_HERSHEY_SIMPLEX (6 / 10) color 2 LINE_AA])"

text \<open>The loop body, lines 82 to 102: the calls it makes, or the error it raises.\<close>

definition draw_calls :: "label_map \<Rightarrow> box \<Rightarrow> error + draw_call list" where
  "draw_calls nms b =
     (let d = detection_of b in
      case lookup_label nms (det_cls_id d) of
        Inl e \<Rightarrow> Inl e
      | Inr label \<Rightarrow> Inr (draw_detection label d))"

text \<open>The captions and the text anchors among a list of calls.\<close>

fun texts :: "draw_call list \<Rightarrow> string list" where
  "texts [] = []"
| "texts (rectangle p q c w # cs) = texts cs"
| "texts (putText s org f sc c w l # cs) = s # texts cs"

fun text_orgs :: "draw_call list \<Rightarrow> (int \<times> int) list" where
  "text_orgs [] = []"
| "text_orgs (rectangle p q c w # cs) = text_orgs cs"
| "text_orgs (putText s org f sc c w l # cs) = org # text_orgs cs"

section \<open>The detector, the processor and the outside world\<close>

text \<open>
  A loaded model object: its \<^verbatim>\<open>names\<close> attribute and its \<^verbatim>\<open>predict\<close> method
  (called with the image and the keyword \<^verbatim>\<open>conf\<close>), which returns a list of results
  or raises. The class \<^verbatim>\<open>YOLO\<close> is its constructor, from a weights name.
\<close>

record 'img yolo =
  yolo_names :: label_map
  predict :: "'img \<Rightarrow> rat \<Rightarrow> error + results list"

type_synonym 'img YOLOClass = "string \<Rightarrow> error + 'img yolo"

text \<open>The fields of \<^verbatim>\<open>YOLOProcessor\<close>; the lock has no state of its own in a sequential run.\<close>

record 'img processor =
  model :: "'img yolo option"
  names :: label_map
  confidence_threshold :: rat
  enable :: bool

text \<open>Lines 52 to 57; \<^verbatim>\<open>names = None\<close> is neither a dict nor a sequence.\<close>

definition YOLOProcessor_init :: "'img processor" where
  "YOLOProcessor_init =
     \<lparr>model = None, names = NamesOther, confidence_threshold = 1 / 4, enable = True\<rparr>"

text \<open>
  What the program does to its surroundings is kept in a trace: the import of the
  detector library, each call of the model constructor, with the weights name and whether
  it returned an instance, and each call of \<^verbatim>\<open>predict\<close>.
\<close>

datatype 'img event = Import | Construct string bool | Predict 'img rat

text \<open>
  The state of a session: the module global \<^verbatim>\<open>YOLO\<close>, the processor instance
  (\<^verbatim>\<open>self\<close> in the methods, \<^verbatim>\<open>webrtc_ctx.video_processor\<close> in the script) and the trace.
\<close>

record 'img world =
  YOLO :: "'img YOLOClass option"
  video_processor :: "'img processor"
  trace :: "'img event list"

text \<open>
  The libraries: what \<^verbatim>\<open>from ultralytics import YOLO\<close> yields (the class, or an
  error), and OpenCV executing one drawing call on an image.
\<close>

record 'img env =
  ultralytics_YOLO :: "error + 'img YOLOClass"
  cv2 :: "draw_call \<Rightarrow> 'img \<Rightarrow> 'img"

text \<open>Lines 18 to 23.\<close>

definition get_yolo_class :: "'img env \<Rightarrow> 'img world \<Rightarrow> 'img world \<times> (error + 'img YOLOClass)" where
  "get_yolo_class env w =
     (case YOLO w of
        None \<Rightarrow>
          (let w1 = w\<lparr>trace := trace w @ [Import]\<rparr> in
           case ultralytics_YOLO env of
             Inl e \<Rightarrow> (w1, Inl e)
           | Inr c \<Rightarrow> (w1\<lparr>YOLO := Some c\<rparr>, Inr c))
      | Some c \<Rightarrow> (w, Inr c))"

text \<open>Lines 59 to 66; the second test is the one made under the lock.\<close>

definition load_model_once :: "'img env \<Rightarrow> 'img world \<Rightarrow> 'img world \<times> (error + unit)" where
  "load_model_once env w =
     (if model (video_processor w) = None then
        (if model (video_processor w) = None then
           (case get_yolo_class env w of
              (w1, Inl e) \<Rightarrow> (w1, Inl e)
            | (w1, Inr YOLOCls) \<Rightarrow>
                (case YOLOCls ''yolov8n.pt'' of
                   Inl e \<Rightarrow> (w1\<lparr>trace := trace w1 @ [Construct ''yolov8n.pt'' False]\<rparr>, Inl e)
                 | Inr m \<Rightarrow>
                     (w1\<lparr>trace := trace w1 @ [Construct ''yolov8n.pt'' True],
                         video_processor :=
                           (video_processor w1)\<lparr>model := Some m, names := yolo_names m\<rparr>\<rparr>,
                      Inr ())))
         else (w, Inr ()))
      else (w, Inr ()))"

text \<open>
  A video frame is its \<^verbatim>\<open>bgr24\<close> pixel buffer: \<^verbatim>\<open>to_ndarray\<close> decodes it and
  \<^verbatim>\<open>from_ndarray\<close> wraps a buffer again.
\<close>

datatype 'img VideoFrame = VideoFrame 'img

fun to_ndarray :: "'img VideoFrame \<Rightarrow> 'img" where
  "to_ndarray (VideoFrame img) = img"

definition from_ndarray :: "'img \<Rightarrow> 'img VideoFrame" where
  "from_ndarray img = VideoFrame img"

text \<open>Lines 80 and 81: the boxes the loop visits.\<close>

definition visited_boxes :: "results \<Rightarrow> box list" where
  "visited_boxes res =
     (case boxes res of
        None \<Rightarrow> []
      | Some bs \<Rightarrow> if 0 < length bs then bs else [])"

text \<open>The loop of lines 81 to 102 on the image, which OpenCV changes call by call.\<close>

fun annotate_boxes :: "(draw_call \<Rightarrow> 'img \<Rightarrow> 'img) \<Rightarrow> label_map \<Rightarrow> box list \<Rightarrow> 'img \<Rightarrow> error + 'img" where
  "annotate_boxes cv nms [] img = Inr img"
| "annotate_boxes cv nms (b # bs) img =
     (case draw_calls nms b of
        Inl e \<Rightarrow> Inl e
      | Inr cs \<Rightarrow> annotate_boxes cv nms bs (fold cv cs img))"

text \<open>Lines 80 to 102.\<close>

definition annotate :: "(draw_call \<Rightarrow> 'img \<Rightarrow> 'img) \<Rightarrow> label_map \<Rightarrow> results \<Rightarrow> 'img \<Rightarrow> error + 'img" where
  "annotate cv nms res img = annotate_boxes cv nms (visited_boxes res) img"

text \<open>Lines 77 and 78, on a loaded model.\<close>

definition run_inference :: "'img yolo \<Rightarrow> 'img \<Rightarrow> rat \<Rightarrow> error + results" where
  "run_inference m img t =
     (case predict m img t of
        Inl e \<Rightarrow> Inl e
      | Inr rs \<Rightarrow> py_getitem rs 0)"

text \<open>Lines 68 to 104.\<close>

definition recv :: "'img env \<Rightarrow> 'img world \<Rightarrow> 'img VideoFrame \<Rightarrow> 'img world \<times> (error + 'img VideoFrame)" where
  "recv env w frame =
     (let img = to_ndarray frame in
      if \<not> enable (video_processor w) then (w, Inr (from_ndarray img))
      else
        (case load_model_once env w of
           (w1, Inl e) \<Rightarrow> (w1, Inl e)
         | (w1, Inr u) \<Rightarrow>
             (case model (video_processor w1) of
                None \<Rightarrow> (w1, Inl AttributeError)
              | Some m \<Rightarrow>
                  (let t = confidence_threshold (video_processor w1);
                       w2 = w1\<lparr>trace := trace w1 @ [Predict img t]\<rparr> in
                   case run_inference m img t of
                     Inl e \<Rightarrow> (w2, Inl e)
                   | Inr res \<Rightarrow>
                       (case annotate (cv2 env) (names (video_processor w2)) res img of
                          Inl e \<Rightarrow> (w2, Inl e)
                        | Inr img' \<Rightarrow> (w2, Inr (from_ndarray img')))))))"

text \<open>
  The detections of one frame, as the loop of \<^verbatim>\<open>recv\<close> reads them: lines 77 to 84
  without the drawing.
\<close>

definition detect :: "'img yolo \<Rightarrow> 'img \<Rightarrow> rat \<Rightarrow> error + detection list" where
  "detect m img t =
     (case run_inference m img t of
        Inl e \<Rightarrow> Inl e
      | Inr res \<Rightarrow> Inr (map detection_of (visited_boxes res)))"

section \<open>The controls\<close>

text \<open>Line 44: the arguments of the slider.\<close>

record slider =
  min_value :: rat
  max_value :: rat
  default_value :: rat
  step :: rat

definition conf_slider :: slider where
  "conf_slider = \<lparr>min_value = 1 / 10, max_value = 9 / 10, default_value = 1 / 4, step = 1 / 20\<rparr>"

text \<open>
  Modelled from the spec: the slider widget itself (\<^verbatim>\<open>st.slider\<close>, of the UI toolkit,
  not under src/). The spec gives it the range from its minimum to its maximum in steps of
  its step: it hands the script a value on that grid and within that range.
\<close>

definition slider_returns :: "slider \<Rightarrow> rat \<Rightarrow> bool" where
  "slider_returns s v \<longleftrightarrow>
     min_value s \<le> v \<and> v \<le> max_value s \<and>
     (v - min_value s) / step s = of_int \<lfloor>(v - min_value s) / step s\<rfloor>"

text \<open>
  Lines 121 to 123 for a session whose processor exists: the toggle and the slider value
  are written into the processor.
\<close>

definition bind_controls :: "bool \<Rightarrow> rat \<Rightarrow> 'img world \<Rightarrow> 'img world" where
  "bind_controls enable_detection conf_threshold w =
     w\<lparr>video_processor :=
         (video_processor w)\<lparr>enable := enable_detection, confidence_threshold := conf_threshold\<rparr>\<rparr>"

text \<open>
  A session is a sequence of steps taken in any order: the transport delivers a frame, or
  the script runs again with the current values of the toggle and of the slider.
\<close>

datatype 'img step = Frame "'img VideoFrame" | Rerun bool rat

fun step_world :: "'img env \<Rightarrow> 'img step \<Rightarrow> 'img world \<Rightarrow> 'img world" where
  "step_world env (Frame f) w = fst (recv env w f)"
| "step_world env (Rerun b v) w = bind_controls b v w"

definition run :: "'img env \<Rightarrow> 'img step list \<Rightarrow> 'img world \<Rightarrow> 'img world" where
  "run env steps w = fold (step_world env) steps w"

fun step_ok :: "'img step \<Rightarrow> bool" where
  "step_ok (Frame f) = True"
| "step_ok (Rerun b v) = slider_returns conf_slider v"

text \<open>A session starts with a fresh processor and an empty trace.\<close>

definition start :: "'img YOLOClass option \<Rightarrow> 'img world" where
  "start g = \<lparr>YOLO = g, video_processor = YOLOProcessor_init, trace = []\<rparr>"

section \<open>Observations used in the statements\<close>

text \<open>Every text anchor among the calls has both coordinates non-negative.\<close>

definition anchors_clamped :: "draw_call list \<Rightarrow> bool" where
  "anchors_clamped cs \<longleftrightarrow> list_all (\<lambda>org. 0 \<le> fst org \<and> 0 \<le> snd org) (text_orgs cs)"

text \<open>The number of model instances constructed in a trace.\<close>

definition constructions :: "'img event list \<Rightarrow> nat" where
  "constructions l = length (filter (\<lambda>e. case e of Construct s ok \<Rightarrow> ok | _ \<Rightarrow> False) l)"

text \<open>The number of calls of \<^verbatim>\<open>predict\<close> in a trace.\<close>

definition inferences :: "'img event list \<Rightarrow> nat" where
  "inferences l = length (filter (\<lambda>e. case e of Predict i t \<Rightarrow> True | _ \<Rightarrow> False) l)"

text \<open>
  Modelled from the spec: the predict operation of the underlying model (the detector
  library, not under src/). The spec has it filter the detections the model produced for
  the image to those at or above the threshold, in the order the model produced them;
  they come back as the boxes of the one result for the image.
\<close>

definition at_or_above :: "rat \<Rightarrow> box \<Rightarrow> bool" where
  "at_or_above t b = (case conf b of Some c \<Rightarrow> t \<le> c | None \<Rightarrow> False)"

definition spec_predict :: "('img \<Rightarrow> box list) \<Rightarrow> 'img \<Rightarrow> rat \<Rightarrow> error + results list" where
  "spec_predict produced img t = Inr [\<lparr>boxes = Some (filter (at_or_above t) (produced img))\<rparr>]"

section \<open>A small session for the instances\<close>

text \<open>A model that finds nothing, the library that constructs it, and the session once it is loaded.\<close>

definition stub_model :: "nat yolo" where
  "stub_model = \<lparr>yolo_names = NamesDict [0 \<mapsto> ''person''], predict = (\<lambda>i t. Inr [\<lparr>boxes = Some []\<rparr>])\<rparr>"

definition stub_env :: "nat env" where
  "stub_env = \<lparr>ultralytics_YOLO = Inr (\<lambda>weights. Inr stub_model), cv2 = (\<lambda>c i. Suc i)\<rparr>"

definition stub_loaded :: "nat world" where
  "stub_loaded =
     \<lparr>YOLO = Some (\<lambda>weights. Inr stub_model),
      video_processor =
        \<lparr>model = Some stub_model, names = NamesDict [0 \<mapsto> ''person''],
         confidence_threshold = 1 / 4, enable = True\<rparr>,
      trace = [Import, Construct ''yolov8n.pt'' True]\<rparr>"

section \<open>Rounding, labels and the calls of one loop iteration\<close>


lemma round_half_even_near: "\<bar>of_int (round_half_even x) - x\<bar> \<le> 1 / 2"
proof -
  have lo: "of_int \<lfloor>x\<rfloor> \<le> x" by simp
  have hi: "x < of_int \<lfloor>x\<rfloor> + 1" by linarith
  show ?thesis
    using lo hi unfolding round_half_even_def Let_def
    by (simp add: abs_le_iff)
qed

lemma round_half_even_nonneg: "0 \<le> x \<Longrightarrow> 0 \<le> round_half_even x"
  unfolding round_half_even_def Let_def by auto

lemma format_0f_nonneg: "0 \<le> x \<Longrightarrow> format_0f x = str_int (round_half_even x)"
  using round_half_even_nonneg [of x] by (simp add: format_0f_def str_int_def)

lemma lookup_label_returns: "\<exists>label. lookup_label nms k = Inr label"
  by (auto simp: lookup_label_def py_getitem_def Let_def split: label_map.splits)

lemma draw_calls_label:
  "lookup_label nms (det_cls_id (detection_of b)) = Inr label \<Longrightarrow>
     draw_calls nms b = Inr (draw_detection label (detection_of b))"
  by (simp add: draw_calls_def Let_def)

lemma draw_calls_returns:
  "\<exists>label. draw_calls nms b = Inr (draw_detection label (detection_of b))"
  using lookup_label_returns [of nms "det_cls_id (detection_of b)"] draw_calls_label by blast

lemma texts_draw_detection: "texts (draw_detection label d) = [caption label (det_conf d)]"
  by (simp add: draw_detection_def Let_def)

lemma text_orgs_draw_detection:
  "text_orgs (draw_detection label d) = [(det_x1 d, max 0 (det_y1 d - 8))]"
  by (simp add: draw_detection_def Let_def)

text \<open>
  C4. For every detection (its confidence is not negative), the caption drawn is the label,
  a space, the confidence times 100 rounded to a nearest integer, and a percent sign;
  the label person with confidence 0.83 gives the caption \<^verbatim>\<open>person 83%\<close>. Where the
  product lies halfway between two integers the even one is written.
\<close>
theorem caption_nearest_percent:
  "(0 \<le> det_conf d \<longrightarrow>
      (\<exists>n. \<bar>of_int n - det_conf d * 100\<bar> \<le> 1 / 2 \<and>
           texts (draw_detection label d) = [label @ '' '' @ str_int n @ ''%'']))
   \<and> caption ''person'' (83 / 100) = ''person 83%''"
proof (intro conjI impI)
  assume "0 \<le> det_conf d"
  then have "format_0f (det_conf d * 100) = str_int (round_half_even (det_conf d * 100))"
    by (simp add: format_0f_nonneg)
  then have "texts (draw_detection label d) =
      [label @ '' '' @ str_int (round_half_even (det_conf d * 100)) @ ''%'']"
    by (simp add: texts_draw_detection caption_def)
  then show "\<exists>n. \<bar>of_int n - det_conf d * 100\<bar> \<le> 1 / 2 \<and>
           texts (draw_detection label d) = [label @ '' '' @ str_int n @ ''%'']"
    using round_half_even_near [of "det_conf d * 100"] by blast
next
  show "caption ''person'' (83 / 100) = ''person 83%''" by code_simp
qed


theorem caption_nearest_percent_witness:
  "(0::rat) \<le> 1 / 8 \<and>
   (\<exists>n. \<bar>of_int n - (1 / 8 :: rat) * 100\<bar> \<le> 1 / 2 \<and>
      texts (draw_detection ''cup''
        \<lparr>det_x1 = 50, det_y1 = 60, det_x2 = 200, det_y2 = 220, det_conf = 1 / 8, det_cls_id = 41\<rparr>)
      = [''cup'' @ '' '' @ str_int n @ ''%''])"
  using caption_nearest_percent [of
      "\<lparr>det_x1 = 50, det_y1 = 60, det_x2 = 200, det_y2 = 220, det_conf = 1 / 8, det_cls_id = 41\<rparr>"
      "''cup''"]
  by simp

text \<open>
  C5 as stated fails: the horizontal coordinate of the text anchor is the left edge of the
  box as it is, so a box whose left edge is negative has its caption anchored at a
  negative x.
\<close>
theorem text_anchor_x_unclamped_counterexample:
  "draw_calls NamesOther \<lparr>xyxy = (- 5, 20, 30, 40), conf = Some (1 / 2), cls = Some 0\<rparr>
     = Inr [rectangle (- 5, 20) (30, 40) (199, 132, 2) 2,
            putText ''0 50%'' (- 5, 12) FONT_HERSHEY_SIMPLEX (6 / 10) (199, 132, 2) 2 LINE_AA]
   \<and> \<not> anchors_clamped
         [rectangle (- 5, 20) (30, 40) (199, 132, 2) 2,
          putText ''0 50%'' (- 5, 12) FONT_HERSHEY_SIMPLEX (6 / 10) (199, 132, 2) 2 LINE_AA]"
proof
  have c: "caption ''0'' (1 / 2) = ''0 50%''" by code_simp
  have s: "str_int 0 = ''0''" by code_simp
  show "draw_calls NamesOther \<lparr>xyxy = (- 5, 20, 30, 40), conf = Some (1 / 2), cls = Some 0\<rparr>
     = Inr [rectangle (- 5, 20) (30, 40) (199, 132, 2) 2,
            putText ''0 50%'' (- 5, 12) FONT_HERSHEY_SIMPLEX (6 / 10) (199, 132, 2) 2 LINE_AA]"
    by (simp add: draw_calls_def detection_of_def lookup_label_def draw_detection_def Let_def
        trunc_def c s)
next
  show "\<not> anchors_clamped
         [rectangle (- 5, 20) (30, 40) (199, 132, 2) 2,
          putText ''0 50%'' (- 5, 12) FONT_HERSHEY_SIMPLEX (6 / 10) (199, 132, 2) 2 LINE_AA]"
    by (simp add: anchors_clamped_def)
qed

text \<open>
  C5, amended. For every detection the anchor of the caption is the left edge of the box
  and the clamped height: its vertical coordinate is never negative, and its horizontal
  coordinate is the left edge unchanged, so both are non-negative exactly when the left
  edge is.
\<close>
theorem text_anchor_y_clamped:
  "\<exists>cs. draw_calls nms b = Inr cs \<and>
      list_all (\<lambda>org. fst org = det_x1 (detection_of b) \<and> 0 \<le> snd org) (text_orgs cs) \<and>
      (anchors_clamped cs \<longleftrightarrow> 0 \<le> det_x1 (detection_of b))"
proof -
  obtain label where "draw_calls nms b = Inr (draw_detection label (detection_of b))"
    using draw_calls_returns by blast
  then show ?thesis
    by (simp add: text_orgs_draw_detection anchors_clamped_def)
qed

text \<open>
  C6. For every detection the caption is anchored 8 pixels above the top edge of the box,
  and at 0 where that would be negative: a top edge of 60 gives 52, a top edge of 0
  gives 0.
\<close>
theorem caption_eight_above_top:
  "(\<exists>cs. draw_calls nms \<lparr>xyxy = (l, t, r, bt), conf = c, cls = k\<rparr> = Inr cs \<and>
      text_orgs cs = [(trunc l, max 0 (trunc t - 8))] \<and> 0 \<le> max 0 (trunc t - 8))
   \<and> max 0 (trunc 60 - 8) = 52
   \<and> max 0 (trunc 0 - 8) = 0"
proof (intro conjI)
  obtain label where "draw_calls nms \<lparr>xyxy = (l, t, r, bt), conf = c, cls = k\<rparr>
      = Inr (draw_detection label (detection_of \<lparr>xyxy = (l, t, r, bt), conf = c, cls = k\<rparr>))"
    using draw_calls_returns by blast
  then show "\<exists>cs. draw_calls nms \<lparr>xyxy = (l, t, r, bt), conf = c, cls = k\<rparr> = Inr cs \<and>
      text_orgs cs = [(trunc l, max 0 (trunc t - 8))] \<and> 0 \<le> max 0 (trunc t - 8)"
    by (simp add: text_orgs_draw_detection detection_of_def)
qed (simp_all add: trunc_def)


text \<open>
  C8. A class id that is absent from a mapping, or out of the range of a sequence, gets its
  own decimal string as label; the lookup returns a label for every label map and every
  class id, so it never raises; the unknown class id 999 gives a caption that starts
  with 999.
\<close>
theorem label_fallback_stringified_id:
  "(m k = None \<longrightarrow> lookup_label (NamesDict m) k = Inr (str_int k))
   \<and> (\<not> (0 \<le> k \<and> k < int (length xs)) \<longrightarrow> lookup_label (NamesSeq xs) k = Inr (str_int k))
   \<and> (\<exists>label. lookup_label nms k = Inr label)
   \<and> (m 999 = None \<longrightarrow>
        (\<exists>cs. draw_calls (NamesDict m) \<lparr>xyxy = r, conf = Some c, cls = Some 999\<rparr> = Inr cs \<and>
              texts cs = [''999'' @ '' '' @ format_0f (c * 100) @ ''%'']))"
proof (intro conjI impI)
  show "\<exists>label. lookup_label nms k = Inr label" by (rule lookup_label_returns)
next
  assume a: "m 999 = None"
  have s: "str_int 999 = ''999''" by code_simp
  have "lookup_label (NamesDict m) (det_cls_id (detection_of \<lparr>xyxy = r, conf = Some c, cls = Some 999\<rparr>))
      = Inr ''999''"
    using a by (cases r) (simp add: lookup_label_def detection_of_def trunc_def s)
  then have "draw_calls (NamesDict m) \<lparr>xyxy = r, conf = Some c, cls = Some 999\<rparr>
      = Inr (draw_detection ''999'' (detection_of \<lparr>xyxy = r, conf = Some c, cls = Some 999\<rparr>))"
    by (rule draw_calls_label)
  moreover have "det_conf (detection_of \<lparr>xyxy = r, conf = Some c, cls = Some 999\<rparr>) = c"
    by (cases r) (simp add: detection_of_def)
  ultimately show "\<exists>cs. draw_calls (NamesDict m) \<lparr>xyxy = r, conf = Some c, cls = Some 999\<rparr> = Inr cs \<and>
              texts cs = [''999'' @ '' '' @ format_0f (c * 100) @ ''%'']"
    by (simp add: texts_draw_detection caption_def)
qed (auto simp: lookup_label_def)

theorem label_fallback_stringified_id_witness:
  "[0 \<mapsto> ''person''] (999 :: int) = None
   \<and> lookup_label (NamesDict [0 \<mapsto> ''person'']) 999 = Inr (str_int 999)
   \<and> \<not> (0 \<le> (999 :: int) \<and> (999 :: int) < int (length [''person'', ''bicycle'']))
   \<and> lookup_label (NamesSeq [''person'', ''bicycle'']) 999 = Inr (str_int 999)
   \<and> (\<exists>cs. draw_calls (NamesDict [0 \<mapsto> ''person''])
              \<lparr>xyxy = (50, 60, 200, 220), conf = Some (83 / 100), cls = Some 999\<rparr> = Inr cs \<and>
            texts cs = [''999'' @ '' '' @ format_0f (83 / 100 * 100) @ ''%''])"
  using label_fallback_stringified_id [of "[0 \<mapsto> ''person'']" 999 "[''person'', ''bicycle'']"
      NamesOther "(50, 60, 200, 220)" "83 / 100"]
  by simp

text \<open>
  C10 as stated fails: where the label map is a mapping that has an entry for -1, a box
  without a class is labelled with that entry and not with the string \<^verbatim>\<open>-1\<close>.
\<close>
theorem absent_cls_mapping_entry_counterexample:
  "cls \<lparr>xyxy = (50, 60, 200, 220), conf = None, cls = None\<rparr> = None
   \<and> lookup_label (NamesDict [- 1 \<mapsto> ''bg''])
         (det_cls_id (detection_of \<lparr>xyxy = (50, 60, 200, 220), conf = None, cls = None\<rparr>))
       = Inr ''bg''
   \<and> draw_calls (NamesDict [- 1 \<mapsto> ''bg'']) \<lparr>xyxy = (50, 60, 200, 220), conf = None, cls = None\<rparr>
       = Inr [rectangle (50, 60) (200, 220) (199, 132, 2) 2,
              putText ''bg 0%'' (50, 52) FONT_HERSHEY_SIMPLEX (6 / 10) (199, 132, 2) 2 LINE_AA]
   \<and> ''bg'' \<noteq> ''-1''"
proof -
  have c: "caption ''bg'' 0 = ''bg 0%''" by code_simp
  show ?thesis
    by (simp add: draw_calls_def lookup_label_def draw_detection_def Let_def detection_of_def
        trunc_def c)
qed

text \<open>
  C10, amended. A box without a confidence is drawn with confidence 0, so its caption ends
  in \<^verbatim>\<open>0%\<close>; a box without a class gets the class id -1, and its label is the string
  \<^verbatim>\<open>-1\<close> by the fallback when the label map is a sequence, is no container, or is a
  mapping with no entry for -1, while a mapping with an entry for -1 gives that entry as
  the label; in every case the calls are made and nothing is raised.
\<close>
theorem absent_conf_and_cls_defaults:
  "(conf b = None \<longrightarrow>
      det_conf (detection_of b) = 0 \<and>
      (\<exists>label. draw_calls nms b = Inr (draw_detection label (detection_of b)) \<and>
         texts (draw_detection label (detection_of b)) = [label @ '' 0%'']))
   \<and> (cls b = None \<longrightarrow>
      det_cls_id (detection_of b) = - 1 \<and>
      (\<exists>cs. draw_calls nms b = Inr cs) \<and>
      draw_calls (NamesSeq xs) b = Inr (draw_detection ''-1'' (detection_of b)) \<and>
      draw_calls NamesOther b = Inr (draw_detection ''-1'' (detection_of b)) \<and>
      (m (- 1) = None \<longrightarrow>
         draw_calls (NamesDict m) b = Inr (draw_detection ''-1'' (detection_of b))) \<and>
      (m (- 1) = Some v \<longrightarrow>
         draw_calls (NamesDict m) b = Inr (draw_detection v (detection_of b))))"
proof (intro conjI impI)
  assume a: "conf b = None"
  then show c0: "det_conf (detection_of b) = 0"
    by (cases "xyxy b") (simp add: detection_of_def)
  have f: "format_0f 0 = ''0''" by code_simp
  obtain label where "draw_calls nms b = Inr (draw_detection label (detection_of b))"
    using draw_calls_returns by blast
  then show "\<exists>label. draw_calls nms b = Inr (draw_detection label (detection_of b)) \<and>
         texts (draw_detection label (detection_of b)) = [label @ '' 0%'']"
    by (auto simp: texts_draw_detection caption_def c0 f)
next
  assume a: "cls b = None"
  then show k: "det_cls_id (detection_of b) = - 1"
    by (cases "xyxy b") (simp add: detection_of_def)
  show "\<exists>cs. draw_calls nms b = Inr cs"
    using draw_calls_returns by blast
  have s: "str_int (- 1) = ''-1''" by code_simp
  have "lookup_label (NamesSeq xs) (det_cls_id (detection_of b)) = Inr ''-1''"
    by (simp add: k lookup_label_def s)
  then show "draw_calls (NamesSeq xs) b = Inr (draw_detection ''-1'' (detection_of b))"
    by (rule draw_calls_label)
  have "lookup_label NamesOther (det_cls_id (detection_of b)) = Inr ''-1''"
    by (simp add: k lookup_label_def s)
  then show "draw_calls NamesOther b = Inr (draw_detection ''-1'' (detection_of b))"
    by (rule draw_calls_label)
  {
    assume d: "m (- 1) = None"
    have "lookup_label (NamesDict m) (det_cls_id (detection_of b)) = Inr ''-1''"
      using d by (simp add: k lookup_label_def s)
    then show "draw_calls (NamesDict m) b = Inr (draw_detection ''-1'' (detection_of b))"
      by (rule draw_calls_label)
  }
  {
    assume e: "m (- 1) = Some v"
    have "lookup_label (NamesDict m) (det_cls_id (detection_of b)) = Inr v"
      using e by (simp add: k lookup_label_def)
    then show "draw_calls (NamesDict m) b = Inr (draw_detection v (detection_of b))"
      by (rule draw_calls_label)
  }
qed

theorem absent_conf_and_cls_defaults_witness:
  "conf \<lparr>xyxy = (50, 60, 200, 220), conf = None, cls = None\<rparr> = None
   \<and> cls \<lparr>xyxy = (50, 60, 200, 220), conf = None, cls = None\<rparr> = None
   \<and> [0 \<mapsto> ''person''] (- 1 :: int) = None
   \<and> draw_calls (NamesDict [0 \<mapsto> ''person'']) \<lparr>xyxy = (50, 60, 200, 220), conf = None, cls = None\<rparr>
       = Inr [rectangle (50, 60) (200, 220) (199, 132, 2) 2,
              putText ''-1 0%'' (50, 52) FONT_HERSHEY_SIMPLEX (6 / 10) (199, 132, 2) 2 LINE_AA]
   \<and> [- 1 \<mapsto> ''bg''] (- 1 :: int) = Some ''bg''
   \<and> draw_calls (NamesDict [- 1 \<mapsto> ''bg'']) \<lparr>xyxy = (50, 60, 200, 220), conf = None, cls = None\<rparr>
       = Inr [rectangle (50, 60) (200, 220) (199, 132, 2) 2,
              putText ''bg 0%'' (50, 52) FONT_HERSHEY_SIMPLEX (6 / 10) (199, 132, 2) 2 LINE_AA]"
proof -
  have c: "caption ''-1'' 0 = ''-1 0%''" by code_simp
  have g: "caption ''bg'' 0 = ''bg 0%''" by code_simp
  have "draw_calls (NamesDict [0 \<mapsto> ''person'']) \<lparr>xyxy = (50, 60, 200, 220), conf = None, cls = None\<rparr>
       = Inr [rectangle (50, 60) (200, 220) (199, 132, 2) 2,
              putText ''-1 0%'' (50, 52) FONT_HERSHEY_SIMPLEX (6 / 10) (199, 132, 2) 2 LINE_AA]"
    using absent_conf_and_cls_defaults [of
        "\<lparr>xyxy = (50, 60, 200, 220), conf = None, cls = None\<rparr>" NamesOther
        "[]" "[0 \<mapsto> ''person'']" "''x''"]
    by (simp add: draw_detection_def Let_def detection_of_def trunc_def c)
  moreover
  have "draw_calls (NamesDict [- 1 \<mapsto> ''bg'']) \<lparr>xyxy = (50, 60, 200, 220), conf = None, cls = None\<rparr>
       = Inr [rectangle (50, 60) (200, 220) (199, 132, 2) 2,
              putText ''bg 0%'' (50, 52) FONT_HERSHEY_SIMPLEX (6 / 10) (199, 132, 2) 2 LINE_AA]"
    using absent_conf_and_cls_defaults [of
        "\<lparr>xyxy = (50, 60, 200, 220), conf = None, cls = None\<rparr>" NamesOther
        "[]" "[- 1 \<mapsto> ''bg'']" "''bg''"]
    by (simp add: draw_detection_def Let_def detection_of_def trunc_def g)
  ultimately show ?thesis by simp
qed

section \<open>The callback, the loader and the controls\<close>


lemma from_to_ndarray: "from_ndarray (to_ndarray frame) = frame"
  by (cases frame) (simp add: from_ndarray_def)

lemma get_yolo_class_processor:
  "get_yolo_class env w = (w1, r) \<Longrightarrow>
     video_processor w1 = video_processor w \<and> constructions (trace w1) = constructions (trace w)"
  by (auto simp: get_yolo_class_def Let_def constructions_def split: option.splits sum.splits)

lemma load_model_once_fields:
  "load_model_once env w = (w1, r) \<Longrightarrow>
     confidence_threshold (video_processor w1) = confidence_threshold (video_processor w) \<and>
     enable (video_processor w1) = enable (video_processor w)"
  by (auto simp: load_model_once_def Let_def split: if_splits prod.splits sum.splits
      dest: get_yolo_class_processor)

lemma load_model_once_ready:
  "model (video_processor w) = Some m \<Longrightarrow> load_model_once env w = (w, Inr ())"
  by (simp add: load_model_once_def)

lemma load_model_once_success:
  "load_model_once env w = (w1, Inr u) \<Longrightarrow>
     model (video_processor w1) \<noteq> None \<and>
     constructions (trace w1) =
       constructions (trace w) + (if model (video_processor w) = None then 1 else 0)"
  by (auto simp: load_model_once_def Let_def constructions_def split: if_splits prod.splits sum.splits
      dest: get_yolo_class_processor)

lemma recv_world:
  "load_model_once env w = (w1, r) \<Longrightarrow>
     fst (recv env w frame) = w \<or> fst (recv env w frame) = w1 \<or>
     fst (recv env w frame) =
       w1\<lparr>trace := trace w1 @ [Predict (to_ndarray frame) (confidence_threshold (video_processor w1))]\<rparr>"
  by (auto simp: recv_def Let_def split: sum.splits option.splits)

lemma recv_enabled_world:
  "enable (video_processor w) \<Longrightarrow> load_model_once env w = (w1, r) \<Longrightarrow>
     fst (recv env w frame) = w1 \<or>
     fst (recv env w frame) =
       w1\<lparr>trace := trace w1 @ [Predict (to_ndarray frame) (confidence_threshold (video_processor w1))]\<rparr>"
  by (auto simp: recv_def Let_def split: sum.splits option.splits)

lemma recv_threshold:
  "confidence_threshold (video_processor (fst (recv env w frame))) =
     confidence_threshold (video_processor w)"
proof -
  obtain w1 r where l: "load_model_once env w = (w1, r)" by (cases "load_model_once env w")
  from recv_world [OF l, of frame] load_model_once_fields [OF l] show ?thesis by auto
qed

lemma recv_ready:
  assumes "model (video_processor w) = Some m"
  shows "model (video_processor (fst (recv env w frame))) = Some m \<and>
         constructions (trace (fst (recv env w frame))) = constructions (trace w)"
  using recv_world [OF load_model_once_ready [OF assms], of env frame] assms
  by (auto simp: constructions_def)

lemma step_world_ready:
  "model (video_processor w) = Some m \<Longrightarrow>
     model (video_processor (step_world env s w)) = Some m \<and>
     constructions (trace (step_world env s w)) = constructions (trace w)"
  by (cases s) (simp_all add: recv_ready bind_controls_def)

lemma run_ready:
  "model (video_processor w) = Some m \<Longrightarrow>
     model (video_processor (run env steps w)) = Some m \<and>
     constructions (trace (run env steps w)) = constructions (trace w)"
proof (induction steps arbitrary: w)
  case Nil
  then show ?case by (simp add: run_def)
next
  case (Cons s steps)
  from step_world_ready [OF Cons.prems, of env s]
  have "model (video_processor (step_world env s w)) = Some m"
    and c: "constructions (trace (step_world env s w)) = constructions (trace w)" by simp_all
  from Cons.IH [OF this(1)] c show ?case by (simp add: run_def)
qed

lemma step_world_threshold:
  "step_ok s \<Longrightarrow> 1 / 10 \<le> confidence_threshold (video_processor w) \<and>
       confidence_threshold (video_processor w) \<le> 9 / 10 \<Longrightarrow>
     1 / 10 \<le> confidence_threshold (video_processor (step_world env s w)) \<and>
     confidence_threshold (video_processor (step_world env s w)) \<le> 9 / 10"
  by (cases s) (simp_all add: recv_threshold bind_controls_def slider_returns_def conf_slider_def)

lemma run_threshold:
  "list_all step_ok steps \<Longrightarrow> 1 / 10 \<le> confidence_threshold (video_processor w) \<and>
       confidence_threshold (video_processor w) \<le> 9 / 10 \<Longrightarrow>
     1 / 10 \<le> confidence_threshold (video_processor (run env steps w)) \<and>
     confidence_threshold (video_processor (run env steps w)) \<le> 9 / 10"
proof (induction steps arbitrary: w)
  case Nil
  then show ?case by (simp add: run_def)
next
  case (Cons s steps)
  from Cons.prems have "step_ok s" and rest: "list_all step_ok steps" by simp_all
  from step_world_threshold [OF this(1) Cons.prems(2), of env]
  have "1 / 10 \<le> confidence_threshold (video_processor (step_world env s w)) \<and>
     confidence_threshold (video_processor (step_world env s w)) \<le> 9 / 10" .
  from Cons.IH [OF rest this] show ?case by (simp add: run_def)
qed

text \<open>
  C9. A fresh processor has the threshold 0.25, the default of the slider, which is a value
  the slider can return; and in every state a session reaches, by frames and by reruns of
  the script whose slider value is one the slider returns, the threshold of the processor
  lies between 0.1 and 0.9.
\<close>
theorem threshold_stays_in_slider_range:
  "confidence_threshold (video_processor (start g)) = 1 / 4
   \<and> slider_returns conf_slider (default_value conf_slider)
   \<and> (list_all step_ok steps \<longrightarrow>
        1 / 10 \<le> confidence_threshold (video_processor (run env steps (start g))) \<and>
        confidence_threshold (video_processor (run env steps (start g))) \<le> 9 / 10)"
proof (intro conjI impI)
  show i: "confidence_threshold (video_processor (start g)) = 1 / 4"
    by (simp add: start_def YOLOProcessor_init_def)
  show "slider_returns conf_slider (default_value conf_slider)"
    by (simp add: slider_returns_def conf_slider_def)
  assume ok: "list_all step_ok steps"
  have "1 / 10 \<le> confidence_threshold (video_processor (start g)) \<and>
       confidence_threshold (video_processor (start g)) \<le> 9 / 10"
    by (simp add: i)
  from run_threshold [OF ok this]
  show "1 / 10 \<le> confidence_threshold (video_processor (run env steps (start g)))"
    and "confidence_threshold (video_processor (run env steps (start g))) \<le> 9 / 10"
    by simp_all
qed

theorem threshold_stays_in_slider_range_witness:
  "list_all step_ok [Rerun True (9 / 10), Frame (VideoFrame (0 :: nat)), Rerun False (1 / 10)]
   \<and> 1 / 10 \<le> confidence_threshold (video_processor
        (run \<lparr>ultralytics_YOLO = Inl ImportError, cv2 = (\<lambda>c i. i)\<rparr>
           [Rerun True (9 / 10), Frame (VideoFrame (0 :: nat)), Rerun False (1 / 10)] (start None)))
   \<and> confidence_threshold (video_processor
        (run \<lparr>ultralytics_YOLO = Inl ImportError, cv2 = (\<lambda>c i. i)\<rparr>
           [Rerun True (9 / 10), Frame (VideoFrame (0 :: nat)), Rerun False (1 / 10)] (start None)))
       \<le> 9 / 10"
proof -
  have ok: "list_all step_ok [Rerun True (9 / 10), Frame (VideoFrame (0 :: nat)), Rerun False (1 / 10)]"
    by (simp add: slider_returns_def conf_slider_def)
  show ?thesis
    using ok threshold_stays_in_slider_range [of None
        "[Rerun True (9 / 10), Frame (VideoFrame (0 :: nat)), Rerun False (1 / 10)]"
        "\<lparr>ultralytics_YOLO = Inl ImportError, cv2 = (\<lambda>c i. i)\<rparr>"]
    by blast
qed

text \<open>
  C1. When the processor is not enabled, the callback returns the frame it was given and
  leaves the session as it was, whatever threshold the processor holds: no call of
  predict is made, no model is constructed and the model field is not touched.
\<close>
theorem recv_disabled_returns_frame:
  "\<not> enable (video_processor w) \<Longrightarrow>
     recv env w frame = (w, Inr frame) \<and>
     inferences (trace (fst (recv env w frame))) = inferences (trace w) \<and>
     constructions (trace (fst (recv env w frame))) = constructions (trace w) \<and>
     model (video_processor (fst (recv env w frame))) = model (video_processor w)"
  by (simp add: recv_def from_to_ndarray)


theorem recv_disabled_returns_frame_witness:
  "\<not> enable (video_processor (bind_controls False (9 / 10) (start None :: nat world)))
   \<and> recv \<lparr>ultralytics_YOLO = Inl ImportError, cv2 = (\<lambda>c i. Suc i)\<rparr>
        (bind_controls False (9 / 10) (start None)) (VideoFrame (7 :: nat))
      = (bind_controls False (9 / 10) (start None), Inr (VideoFrame 7))
   \<and> trace (fst (recv \<lparr>ultralytics_YOLO = Inl ImportError, cv2 = (\<lambda>c i. Suc i)\<rparr>
        (bind_controls False (9 / 10) (start None)) (VideoFrame (7 :: nat)))) = []"
  using recv_disabled_returns_frame [of "bind_controls False (9 / 10) (start None :: nat world)"
      "\<lparr>ultralytics_YOLO = Inl ImportError, cv2 = (\<lambda>c i. Suc i)\<rparr>" "VideoFrame 7"]
  by (simp add: bind_controls_def start_def)

lemma visited_boxes_none: "boxes res = None \<or> boxes res = Some [] \<Longrightarrow> visited_boxes res = []"
  by (auto simp: visited_boxes_def)

text \<open>
  C7. When the result has no boxes (none at all, or an empty collection), the annotation
  returns the image it was given, and so the callback of an enabled, loaded processor
  returns the frame it was given.
\<close>
theorem annotate_nothing_detected:
  assumes "boxes res = None \<or> boxes res = Some []"
  shows "annotate cv nms res img = Inr img \<and>
         (enable (video_processor w) \<and> model (video_processor w) = Some m \<and>
          run_inference m (to_ndarray frame) (confidence_threshold (video_processor w)) = Inr res
          \<longrightarrow> snd (recv env w frame) = Inr frame)"
proof
  show a: "annotate cv nms res img = Inr img" for cv :: "draw_call \<Rightarrow> 'c \<Rightarrow> 'c" and nms img
    by (simp add: annotate_def visited_boxes_none [OF assms])
  show "enable (video_processor w) \<and> model (video_processor w) = Some m \<and>
          run_inference m (to_ndarray frame) (confidence_threshold (video_processor w)) = Inr res
          \<longrightarrow> snd (recv env w frame) = Inr frame"
    by (simp add: recv_def Let_def load_model_once_ready a from_to_ndarray)
qed


theorem annotate_nothing_detected_witness:
  "boxes \<lparr>boxes = Some []\<rparr> = Some []
   \<and> run_inference \<lparr>yolo_names = NamesOther, predict = (\<lambda>i t. Inr [\<lparr>boxes = Some []\<rparr>])\<rparr>
         (to_ndarray (VideoFrame (7 :: nat))) (1 / 4) = Inr \<lparr>boxes = Some []\<rparr>
   \<and> annotate (\<lambda>c i. Suc i) NamesOther \<lparr>boxes = Some []\<rparr> (7 :: nat) = Inr 7
   \<and> snd (recv \<lparr>ultralytics_YOLO = Inl ImportError, cv2 = (\<lambda>c i. Suc i)\<rparr>
         \<lparr>YOLO = None,
          video_processor =
            \<lparr>model = Some \<lparr>yolo_names = NamesOther, predict = (\<lambda>i t. Inr [\<lparr>boxes = Some []\<rparr>])\<rparr>,
             names = NamesOther, confidence_threshold = 1 / 4, enable = True\<rparr>,
          trace = []\<rparr>
         (VideoFrame 7))
      = Inr (VideoFrame 7)"
  using annotate_nothing_detected [where res = "\<lparr>boxes = Some []\<rparr>" and cv = "\<lambda>c i. Suc i"
      and nms = NamesOther and img = "7 :: nat"
      and m = "\<lparr>yolo_names = NamesOther, predict = (\<lambda>i t. Inr [\<lparr>boxes = Some []\<rparr>])\<rparr>"
      and frame = "VideoFrame (7 :: nat)"
      and env = "\<lparr>ultralytics_YOLO = Inl ImportError, cv2 = (\<lambda>c i. Suc i)\<rparr>"
      and w = "\<lparr>YOLO = None,
          video_processor =
            \<lparr>model = Some \<lparr>yolo_names = NamesOther, predict = (\<lambda>i t. Inr [\<lparr>boxes = Some []\<rparr>])\<rparr>,
             names = NamesOther, confidence_threshold = 1 / 4, enable = True\<rparr>,
          trace = []\<rparr>"]
  by (simp add: run_inference_def py_getitem_def)

lemma det_conf_detection_of:
  "det_conf (detection_of b) = (case conf b of Some c \<Rightarrow> c | None \<Rightarrow> 0)"
  by (cases "xyxy b") (simp add: detection_of_def)

lemma visited_boxes_Some: "visited_boxes \<lparr>boxes = Some bs\<rparr> = bs"
  by (cases bs) (simp_all add: visited_boxes_def)

lemma at_or_above_conf: "at_or_above t b \<Longrightarrow> t \<le> det_conf (detection_of b)"
  by (auto simp: at_or_above_def det_conf_detection_of split: option.splits)

text \<open>
  C2. With a model whose predict operation is the one of the spec, for every image and
  every threshold (those from 0.10 to 0.90 among them) the detections read off by the
  callback are those the model produced at or above the threshold, in the order the model
  produced them; each has a confidence at or above the threshold, and when none
  qualifies the outcome is the empty sequence and not an error.
\<close>
theorem detect_at_or_above_threshold:
  assumes "predict m = spec_predict produced"
  shows "\<exists>ds. detect m img t = Inr ds \<and>
           ds = map detection_of (filter (at_or_above t) (produced img)) \<and>
           list_all (\<lambda>d. t \<le> det_conf d) ds \<and>
           (filter (at_or_above t) (produced img) = [] \<longrightarrow> ds = [])"
proof -
  have "run_inference m img t = Inr \<lparr>boxes = Some (filter (at_or_above t) (produced img))\<rparr>"
    by (simp add: run_inference_def assms spec_predict_def py_getitem_def)
  then have d: "detect m img t = Inr (map detection_of (filter (at_or_above t) (produced img)))"
    by (simp add: detect_def visited_boxes_Some)
  have "list_all (\<lambda>d. t \<le> det_conf d) (map detection_of (filter (at_or_above t) (produced img)))"
    by (simp add: list_all_iff at_or_above_conf)
  with d show ?thesis by simp
qed


theorem detect_at_or_above_threshold_witness:
  "predict \<lparr>yolo_names = NamesOther,
            predict = spec_predict (\<lambda>i :: nat.
              [\<lparr>xyxy = (50, 60, 200, 220), conf = Some (83 / 100), cls = Some 0\<rparr>,
               \<lparr>xyxy = (1, 2, 3, 4), conf = Some (1 / 5), cls = Some 1\<rparr>])\<rparr>
     = spec_predict (\<lambda>i :: nat.
              [\<lparr>xyxy = (50, 60, 200, 220), conf = Some (83 / 100), cls = Some 0\<rparr>,
               \<lparr>xyxy = (1, 2, 3, 4), conf = Some (1 / 5), cls = Some 1\<rparr>])
   \<and> detect \<lparr>yolo_names = NamesOther,
            predict = spec_predict (\<lambda>i :: nat.
              [\<lparr>xyxy = (50, 60, 200, 220), conf = Some (83 / 100), cls = Some 0\<rparr>,
               \<lparr>xyxy = (1, 2, 3, 4), conf = Some (1 / 5), cls = Some 1\<rparr>])\<rparr> 7 (1 / 4)
     = Inr [\<lparr>det_x1 = 50, det_y1 = 60, det_x2 = 200, det_y2 = 220, det_conf = 83 / 100, det_cls_id = 0\<rparr>]"
  using detect_at_or_above_threshold [where m = "\<lparr>yolo_names = NamesOther,
            predict = spec_predict (\<lambda>i :: nat.
              [\<lparr>xyxy = (50, 60, 200, 220), conf = Some (83 / 100), cls = Some 0\<rparr>,
               \<lparr>xyxy = (1, 2, 3, 4), conf = Some (1 / 5), cls = Some 1\<rparr>])\<rparr>"
      and produced = "\<lambda>i :: nat.
              [\<lparr>xyxy = (50, 60, 200, 220), conf = Some (83 / 100), cls = Some 0\<rparr>,
               \<lparr>xyxy = (1, 2, 3, 4), conf = Some (1 / 5), cls = Some 1\<rparr>]"
      and img = 7 and t = "1 / 4"]
  by (simp add: at_or_above_def detection_of_def trunc_def)


lemma load_model_once_instances:
  "load_model_once env w = (w1, r) \<Longrightarrow>
     constructions (trace w) = (if model (video_processor w) = None then 0 else 1) \<Longrightarrow>
     constructions (trace w1) = (if model (video_processor w1) = None then 0 else 1)"
  by (auto simp: load_model_once_def Let_def constructions_def split: if_splits prod.splits sum.splits
      dest: get_yolo_class_processor)

lemma recv_instances:
  assumes "constructions (trace w) = (if model (video_processor w) = None then 0 else 1)"
  shows "constructions (trace (fst (recv env w frame))) =
           (if model (video_processor (fst (recv env w frame))) = None then 0 else 1)"
proof -
  obtain w1 r where l: "load_model_once env w = (w1, r)" by (cases "load_model_once env w")
  from load_model_once_instances [OF l assms] recv_world [OF l, of frame] assms
  show ?thesis by (auto simp: constructions_def)
qed

lemma step_world_instances:
  "constructions (trace w) = (if model (video_processor w) = None then 0 else 1) \<Longrightarrow>
     constructions (trace (step_world env s w)) =
       (if model (video_processor (step_world env s w)) = None then 0 else 1)"
  by (cases s) (simp_all add: recv_instances bind_controls_def)

lemma run_instances:
  "constructions (trace w) = (if model (video_processor w) = None then 0 else 1) \<Longrightarrow>
     constructions (trace (run env steps w)) =
       (if model (video_processor (run env steps w)) = None then 0 else 1)"
proof (induction steps arbitrary: w)
  case Nil
  then show ?case by (simp add: run_def)
next
  case (Cons s steps)
  from Cons.IH [OF step_world_instances [OF Cons.prems, of env s]]
  show ?case by (simp add: run_def)
qed

text \<open>
  C3. A load that returns leaves a model in place, and a second load right after it
  changes nothing and constructs nothing: the two calls construct one instance when the
  processor had none. The callback of an enabled processor ends with the model the load
  put there, and a callback of a disabled one changes nothing. Once a model is set, no
  run of frames and reruns replaces or removes it, or constructs another; and a session
  has constructed no instance while the field is empty and exactly one once it is set.
\<close>
theorem load_model_exactly_once:
  "(load_model_once env w = (w1, Inr ()) \<longrightarrow>
      model (video_processor w1) \<noteq> None \<and>
      load_model_once env w1 = (w1, Inr ()) \<and>
      constructions (trace w1) =
        constructions (trace w) + (if model (video_processor w) = None then 1 else 0))
   \<and> (enable (video_processor w) \<and> load_model_once env w = (w1, Inr ()) \<longrightarrow>
        model (video_processor (fst (recv env w frame))) = model (video_processor w1) \<and>
        constructions (trace (fst (recv env w frame))) = constructions (trace w1))
   \<and> (\<not> enable (video_processor w) \<longrightarrow> fst (recv env w frame) = w)
   \<and> (model (video_processor w) = Some m \<longrightarrow>
        model (video_processor (run env steps w)) = Some m \<and>
        constructions (trace (run env steps w)) = constructions (trace w))
   \<and> constructions (trace (run env steps (start g))) =
        (if model (video_processor (run env steps (start g))) = None then 0 else 1)"
proof (intro conjI impI)
  assume l: "load_model_once env w = (w1, Inr ())"
  from load_model_once_success [OF l]
  show r: "model (video_processor w1) \<noteq> None"
    and "constructions (trace w1) =
        constructions (trace w) + (if model (video_processor w) = None then 1 else 0)"
    by simp_all
  from r obtain m1 where "model (video_processor w1) = Some m1" by blast
  then show "load_model_once env w1 = (w1, Inr ())" by (rule load_model_once_ready)
next
  assume a: "enable (video_processor w) \<and> load_model_once env w = (w1, Inr ())"
  from recv_enabled_world [of w env w1 "Inr ()" frame] a
  show "model (video_processor (fst (recv env w frame))) = model (video_processor w1)"
    and "constructions (trace (fst (recv env w frame))) = constructions (trace w1)"
    by (auto simp: constructions_def)
next
  assume "\<not> enable (video_processor w)"
  then show "fst (recv env w frame) = w" by (simp add: recv_def)
next
  assume m: "model (video_processor w) = Some m"
  from run_ready [OF m]
  show "model (video_processor (run env steps w)) = Some m"
    and "constructions (trace (run env steps w)) = constructions (trace w)"
    by simp_all
next
  have "constructions (trace (start g)) = (if model (video_processor (start g)) = None then 0 else 1)"
    by (simp add: start_def YOLOProcessor_init_def constructions_def)
  then show "constructions (trace (run env steps (start g))) =
        (if model (video_processor (run env steps (start g))) = None then 0 else 1)"
    by (rule run_instances)
qed


theorem load_model_exactly_once_witness:
  "load_model_once stub_env (start None) = (stub_loaded, Inr ())
   \<and> enable (video_processor (start None :: nat world))
   \<and> model (video_processor stub_loaded) = Some stub_model
   \<and> load_model_once stub_env stub_loaded = (stub_loaded, Inr ())
   \<and> constructions (trace stub_loaded) = 1
   \<and> model (video_processor (fst (recv stub_env (start None) (VideoFrame 7)))) = Some stub_model
   \<and> constructions (trace (fst (recv stub_env (start None) (VideoFrame 7)))) = 1
   \<and> model (video_processor
        (run stub_env [Frame (VideoFrame 7), Rerun False (1 / 2), Frame (VideoFrame 8)] stub_loaded))
      = Some stub_model
   \<and> constructions (trace
        (run stub_env [Frame (VideoFrame 7), Rerun False (1 / 2), Frame (VideoFrame 8)] stub_loaded))
      = 1
   \<and> fst (recv stub_env (bind_controls False (1 / 4) (start None)) (VideoFrame 7))
      = bind_controls False (1 / 4) (start None)"
proof -
  have l: "load_model_once stub_env (start None) = (stub_loaded, Inr ())"
    by (simp add: load_model_once_def get_yolo_class_def stub_env_def stub_loaded_def stub_model_def
        start_def YOLOProcessor_init_def Let_def)
  have e: "enable (video_processor (start None :: nat world))"
    by (simp add: start_def YOLOProcessor_init_def)
  have m: "model (video_processor stub_loaded) = Some stub_model"
    by (simp add: stub_loaded_def)
  have c: "constructions (trace stub_loaded) = 1"
    by (simp add: stub_loaded_def constructions_def)
  have n: "model (video_processor (start None :: nat world)) = None"
    by (simp add: start_def YOLOProcessor_init_def)
  have d: "\<not> enable (video_processor (bind_controls False (1 / 4) (start None :: nat world)))"
    by (simp add: bind_controls_def)
  from load_model_exactly_once [of stub_env "start None" stub_loaded "VideoFrame 7"] l e m c
  have "load_model_once stub_env stub_loaded = (stub_loaded, Inr ())"
    and "model (video_processor (fst (recv stub_env (start None) (VideoFrame 7)))) = Some stub_model"
    and "constructions (trace (fst (recv stub_env (start None) (VideoFrame 7)))) = 1"
    by simp_all
  moreover
  from load_model_exactly_once [of stub_env stub_loaded stub_loaded "VideoFrame 7" stub_model
      "[Frame (VideoFrame 7), Rerun False (1 / 2), Frame (VideoFrame 8)]"] m c
  have "model (video_processor
        (run stub_env [Frame (VideoFrame 7), Rerun False (1 / 2), Frame (VideoFrame 8)] stub_loaded))
      = Some stub_model"
    and "constructions (trace
        (run stub_env [Frame (VideoFrame 7), Rerun False (1 / 2), Frame (VideoFrame 8)] stub_loaded))
      = 1"
    by simp_all
  moreover
  from load_model_exactly_once [of stub_env "bind_controls False (1 / 4) (start None)" stub_loaded
      "VideoFrame 7"] d
  have "fst (recv stub_env (bind_controls False (1 / 4) (start None)) (VideoFrame 7))
      = bind_controls False (1 / 4) (start None)"
    by blast
  ultimately show ?thesis using l e m c by simp
qed

end
